theory Spec2Isabelle
  imports Complex_Main
begin

section \<open>Numbers and JavaScript values\<close>

text \<open>
  A JavaScript number is a finite value or \<^verbatim>\<open>NaN\<close>.  Finite values are written as
  rationals; \<^verbatim>\<open>NaN\<close> is what arithmetic gives on \<^verbatim>\<open>undefined\<close>, and every
  operation passes it on.  The infinities are not modelled: the aggregation code
  divides by the literals 10 and 100 only.  (The slash is the division of the class
  \<open>inverse\<close>, so the type is given an \<open>inverse\<close> as well; the code has none.)
\<close>

datatype js_number = Fin rat | NaN

instantiation js_number :: "{comm_monoid_add, one, times, inverse}"
begin

definition zero_js_number :: js_number where
  "zero_js_number = Fin 0"

definition one_js_number :: js_number where
  "one_js_number = Fin 1"

definition plus_js_number :: "js_number \<Rightarrow> js_number \<Rightarrow> js_number" where
  "plus_js_number a b = (case (a, b) of (Fin x, Fin y) \<Rightarrow> Fin (x + y) | _ \<Rightarrow> NaN)"

definition times_js_number :: "js_number \<Rightarrow> js_number \<Rightarrow> js_number" where
  "times_js_number a b = (case (a, b) of (Fin x, Fin y) \<Rightarrow> Fin (x * y) | _ \<Rightarrow> NaN)"

definition divide_js_number :: "js_number \<Rightarrow> js_number \<Rightarrow> js_number" where
  "divide_js_number a b =
     (case (a, b) of (Fin x, Fin y) \<Rightarrow> (if y = 0 then NaN else Fin (x / y)) | _ \<Rightarrow> NaN)"

definition inverse_js_number :: "js_number \<Rightarrow> js_number" where
  "inverse_js_number a = (case a of Fin x \<Rightarrow> (if x = 0 then NaN else Fin (1 / x)) | NaN \<Rightarrow> NaN)"

instance
proof
  fix a b c :: js_number
  show "a + b + c = a + (b + c)"
    by (cases a; cases b; cases c) (simp_all add: plus_js_number_def)
  show "a + b = b + a"
    by (cases a; cases b) (simp_all add: plus_js_number_def)
  show "0 + a = a"
    by (cases a) (simp_all add: plus_js_number_def zero_js_number_def)
qed

end

instance js_number :: numeral ..

text \<open>
  \<^verbatim>\<open>Math.round\<close> rounds to the nearest integer and sends a fraction of exactly one
  half towards plus infinity; \<^verbatim>\<open>Math.round(NaN)\<close> is \<^verbatim>\<open>NaN\<close>.
\<close>

definition Math_round :: "js_number \<Rightarrow> js_number" where
  "Math_round a = (case a of Fin x \<Rightarrow> Fin (of_int \<lfloor>x + 1 / 2\<rfloor>) | NaN \<Rightarrow> NaN)"

text \<open>
  Values that cross the node boundary untyped (\<^verbatim>\<open>dietaryData\<close>) and the object the
  node returns are JavaScript values; an object is its list of keys and values in the
  order of the object literal.
\<close>

datatype js_value =
    JNull
  | JBool bool
  | JNum js_number
  | JStr string
  | JArr "js_value list"
  | JObj "(string \<times> js_value) list"

section \<open>Property lookup on an object literal\<close>

text \<open>
  An object literal inherits from \<^verbatim>\<open>Object.prototype\<close>.  These are the names of the
  members it inherits; each of them is a function or an object, hence truthy.
\<close>

definition Object_prototype_members :: "string list" where
  "Object_prototype_members =
     [''constructor'', ''__defineGetter__'', ''__defineSetter__'', ''hasOwnProperty'',
      ''__lookupGetter__'', ''__lookupSetter__'', ''isPrototypeOf'',
      ''propertyIsEnumerable'', ''toString'', ''valueOf'', ''__proto__'',
      ''toLocaleString'']"

text \<open>
  What \<^verbatim>\<open>obj[key]\<close> finds on an object literal given by its entries: the value of
  the literal's own entry (the last one, if the key is written twice), else the member
  inherited under that name, else \<^verbatim>\<open>undefined\<close>.
\<close>

datatype 'a js_property = OwnValue 'a | InheritedMember | Missing

definition js_get :: "(string \<times> 'a) list \<Rightarrow> string \<Rightarrow> 'a js_property" where
  "js_get obj key =
     (case map_of (rev obj) key of
        Some v \<Rightarrow> OwnValue v
      | None \<Rightarrow> if key \<in> set Object_prototype_members then InheritedMember else Missing)"

text \<open>
  A literal that writes the key \<^verbatim>\<open>__proto__\<close> sets its prototype instead of a
  property, and \<^const>\<open>js_get\<close> does not describe it.  The literals \<^const>\<open>js_get\<close>
  is used for are the others.
\<close>

definition plain_literal :: "(string \<times> 'a) list \<Rightarrow> bool" where
  "plain_literal obj \<longleftrightarrow> ''__proto__'' \<notin> set (map fst obj)"

section \<open>The nutrition table\<close>

text \<open>One entry of \<^verbatim>\<open>foodDatabase\<close>: nutrients per 100 g.\<close>

record nutrition =
  calories :: js_number
  protein :: js_number
  carbs :: js_number
  fat :: js_number
  fiber :: js_number

text \<open>
  The object literal \<^verbatim>\<open>foodDatabase\<close> of the Hugging Face code node
  (api-integration-examples.md, lines 55 to 156), entry by entry.
\<close>

definition foodTable :: "(string \<times> nutrition) list" where
  "foodTable = [
  (''apple_pie'', \<lparr>calories = 237, protein = 24 / 10, carbs = 34, fat = 11, fiber = 16 / 10\<rparr>),
  (''baby_back_ribs'', \<lparr>calories = 355, protein = 32, carbs = 0, fat = 25, fiber = 0\<rparr>),
  (''baklava'', \<lparr>calories = 334, protein = 6, carbs = 35, fat = 20, fiber = 18 / 10\<rparr>),
  (''beef_carpaccio'', \<lparr>calories = 250, protein = 25, carbs = 0, fat = 17, fiber = 0\<rparr>),
  (''beef_tartare'', \<lparr>calories = 200, protein = 20, carbs = 2, fat = 13, fiber = 0\<rparr>),
  (''beet_salad'', \<lparr>calories = 43, protein = 16 / 10, carbs = 10, fat = 2 / 10, fiber = 28 / 10\<rparr>),
  (''beignets'', \<lparr>calories = 310, protein = 6, carbs = 35, fat = 17, fiber = 12 / 10\<rparr>),
  (''bibimbap'', \<lparr>calories = 350, protein = 15, carbs = 45, fat = 12, fiber = 4\<rparr>),
  (''bread_pudding'', \<lparr>calories = 320, protein = 8, carbs = 45, fat = 12, fiber = 2\<rparr>),
  (''breakfast_burrito'', \<lparr>calories = 400, protein = 20, carbs = 35, fat = 20, fiber = 3\<rparr>),
  (''bruschetta'', \<lparr>calories = 180, protein = 6, carbs = 20, fat = 8, fiber = 2\<rparr>),
  (''caesar_salad'', \<lparr>calories = 150, protein = 8, carbs = 8, fat = 10, fiber = 2\<rparr>),
  (''cannoli'', \<lparr>calories = 200, protein = 6, carbs = 25, fat = 9, fiber = 1\<rparr>),
  (''caprese_salad'', \<lparr>calories = 120, protein = 8, carbs = 6, fat = 8, fiber = 1\<rparr>),
  (''carrot_cake'', \<lparr>calories = 350, protein = 5, carbs = 45, fat = 17, fiber = 2\<rparr>),
  (''ceviche'', \<lparr>calories = 150, protein = 25, carbs = 8, fat = 3, fiber = 1\<rparr>),
  (''cheesecake'', \<lparr>calories = 320, protein = 6, carbs = 30, fat = 20, fiber = 1\<rparr>),
  (''cheese_plate'', \<lparr>calories = 250, protein = 15, carbs = 2, fat = 20, fiber = 0\<rparr>),
  (''chicken_curry'', \<lparr>calories = 300, protein = 25, carbs = 15, fat = 18, fiber = 3\<rparr>),
  (''chicken_quesadilla'', \<lparr>calories = 450, protein = 25, carbs = 35, fat = 25, fiber = 2\<rparr>),
  (''chicken_wings'', \<lparr>calories = 320, protein = 30, carbs = 2, fat = 22, fiber = 0\<rparr>),
  (''chocolate_cake'', \<lparr>calories = 400, protein = 6, carbs = 50, fat = 20, fiber = 3\<rparr>),
  (''chocolate_mousse'', \<lparr>calories = 280, protein = 6, carbs = 25, fat = 18, fiber = 2\<rparr>),
  (''churros'', \<lparr>calories = 300, protein = 4, carbs = 35, fat = 16, fiber = 1\<rparr>),
  (''clam_chowder'', \<lparr>calories = 200, protein = 15, carbs = 20, fat = 8, fiber = 2\<rparr>),
  (''club_sandwich'', \<lparr>calories = 500, protein = 30, carbs = 35, fat = 25, fiber = 3\<rparr>),
  (''crab_cakes'', \<lparr>calories = 250, protein = 20, carbs = 8, fat = 15, fiber = 1\<rparr>),
  (''creme_brulee'', \<lparr>calories = 300, protein = 6, carbs = 25, fat = 20, fiber = 0\<rparr>),
  (''croque_madame'', \<lparr>calories = 450, protein = 25, carbs = 20, fat = 30, fiber = 1\<rparr>),
  (''cup_cakes'', \<lparr>calories = 250, protein = 3, carbs = 35, fat = 12, fiber = 1\<rparr>),
  (''deviled_eggs'', \<lparr>calories = 150, protein = 12, carbs = 2, fat = 10, fiber = 0\<rparr>),
  (''donuts'', \<lparr>calories = 300, protein = 4, carbs = 35, fat = 16, fiber = 1\<rparr>),
  (''dumplings'', \<lparr>calories = 200, protein = 8, carbs = 25, fat = 8, fiber = 2\<rparr>),
  (''eggs_benedict'', \<lparr>calories = 400, protein = 20, carbs = 15, fat = 30, fiber = 1\<rparr>),
  (''escargots'', \<lparr>calories = 150, protein = 15, carbs = 5, fat = 8, fiber = 1\<rparr>),
  (''falafel'', \<lparr>calories = 200, protein = 8, carbs = 25, fat = 8, fiber = 4\<rparr>),
  (''filet_mignon'', \<lparr>calories = 300, protein = 30, carbs = 0, fat = 20, fiber = 0\<rparr>),
  (''fish_and_chips'', \<lparr>calories = 600, protein = 25, carbs = 50, fat = 35, fiber = 3\<rparr>),
  (''foie_gras'', \<lparr>calories = 400, protein = 8, carbs = 2, fat = 40, fiber = 0\<rparr>),
  (''french_fries'', \<lparr>calories = 320, protein = 4, carbs = 40, fat = 16, fiber = 3\<rparr>),
  (''french_onion_soup'', \<lparr>calories = 250, protein = 12, carbs = 20, fat = 12, fiber = 2\<rparr>),
  (''french_toast'', \<lparr>calories = 300, protein = 12, carbs = 35, fat = 12, fiber = 2\<rparr>),
  (''fried_calamari'', \<lparr>calories = 250, protein = 20, carbs = 15, fat = 12, fiber = 1\<rparr>),
  (''fried_rice'', \<lparr>calories = 300, protein = 10, carbs = 45, fat = 8, fiber = 2\<rparr>),
  (''frozen_yogurt'', \<lparr>calories = 150, protein = 4, carbs = 25, fat = 4, fiber = 0\<rparr>),
  (''garlic_bread'', \<lparr>calories = 200, protein = 6, carbs = 25, fat = 8, fiber = 1\<rparr>),
  (''gnocchi'', \<lparr>calories = 250, protein = 8, carbs = 45, fat = 6, fiber = 2\<rparr>),
  (''greek_salad'', \<lparr>calories = 180, protein = 8, carbs = 12, fat = 12, fiber = 3\<rparr>),
  (''grilled_cheese_sandwich'', \<lparr>calories = 400, protein = 15, carbs = 30, fat = 25, fiber = 2\<rparr>),
  (''grilled_salmon'', \<lparr>calories = 250, protein = 30, carbs = 0, fat = 15, fiber = 0\<rparr>),
  (''guacamole'', \<lparr>calories = 150, protein = 2, carbs = 8, fat = 14, fiber = 6\<rparr>),
  (''gyro'', \<lparr>calories = 350, protein = 20, carbs = 25, fat = 20, fiber = 2\<rparr>),
  (''hamburger'', \<lparr>calories = 500, protein = 25, carbs = 35, fat = 30, fiber = 2\<rparr>),
  (''hot_and_sour_soup'', \<lparr>calories = 100, protein = 8, carbs = 10, fat = 3, fiber = 1\<rparr>),
  (''hot_dog'', \<lparr>calories = 300, protein = 12, carbs = 20, fat = 20, fiber = 1\<rparr>),
  (''huevos_rancheros'', \<lparr>calories = 400, protein = 20, carbs = 30, fat = 25, fiber = 4\<rparr>),
  (''hummus'', \<lparr>calories = 200, protein = 8, carbs = 20, fat = 10, fiber = 6\<rparr>),
  (''ice_cream'', \<lparr>calories = 200, protein = 3, carbs = 25, fat = 10, fiber = 0\<rparr>),
  (''lasagna'', \<lparr>calories = 400, protein = 20, carbs = 35, fat = 20, fiber = 3\<rparr>),
  (''lobster_bisque'', \<lparr>calories = 300, protein = 15, carbs = 15, fat = 20, fiber = 1\<rparr>),
  (''lobster_roll_sandwich'', \<lparr>calories = 450, protein = 25, carbs = 30, fat = 25, fiber = 2\<rparr>),
  (''macaroni_and_cheese'', \<lparr>calories = 350, protein = 15, carbs = 35, fat = 18, fiber = 2\<rparr>),
  (''macarons'', \<lparr>calories = 150, protein = 3, carbs = 25, fat = 5, fiber = 1\<rparr>),
  (''miso_soup'', \<lparr>calories = 50, protein = 3, carbs = 6, fat = 2, fiber = 1\<rparr>),
  (''mussels'', \<lparr>calories = 150, protein = 20, carbs = 5, fat = 6, fiber = 0\<rparr>),
  (''nachos'', \<lparr>calories = 400, protein = 15, carbs = 35, fat = 25, fiber = 3\<rparr>),
  (''omelette'', \<lparr>calories = 250, protein = 18, carbs = 2, fat = 18, fiber = 0\<rparr>),
  (''onion_rings'', \<lparr>calories = 300, protein = 4, carbs = 35, fat = 16, fiber = 3\<rparr>),
  (''oysters'', \<lparr>calories = 100, protein = 12, carbs = 4, fat = 4, fiber = 0\<rparr>),
  (''pad_thai'', \<lparr>calories = 400, protein = 15, carbs = 50, fat = 15, fiber = 3\<rparr>),
  (''paella'', \<lparr>calories = 350, protein = 20, carbs = 40, fat = 12, fiber = 2\<rparr>),
  (''pancakes'', \<lparr>calories = 300, protein = 8, carbs = 40, fat = 12, fiber = 2\<rparr>),
  (''panna_cotta'', \<lparr>calories = 200, protein = 4, carbs = 20, fat = 12, fiber = 0\<rparr>),
  (''peking_duck'', \<lparr>calories = 400, protein = 30, carbs = 5, fat = 30, fiber = 0\<rparr>),
  (''pho'', \<lparr>calories = 300, protein = 20, carbs = 30, fat = 8, fiber = 2\<rparr>),
  (''pizza'', \<lparr>calories = 400, protein = 18, carbs = 45, fat = 18, fiber = 2\<rparr>),
  (''pork_chop'', \<lparr>calories = 300, protein = 30, carbs = 0, fat = 20, fiber = 0\<rparr>),
  (''poutine'', \<lparr>calories = 500, protein = 15, carbs = 40, fat = 30, fiber = 2\<rparr>),
  (''prime_rib'', \<lparr>calories = 400, protein = 35, carbs = 0, fat = 28, fiber = 0\<rparr>),
  (''pulled_pork_sandwich'', \<lparr>calories = 450, protein = 25, carbs = 35, fat = 25, fiber = 2\<rparr>),
  (''ramen'', \<lparr>calories = 400, protein = 20, carbs = 45, fat = 15, fiber = 3\<rparr>),
  (''ravioli'', \<lparr>calories = 300, protein = 15, carbs = 35, fat = 12, fiber = 2\<rparr>),
  (''red_velvet_cake'', \<lparr>calories = 350, protein = 5, carbs = 45, fat = 16, fiber = 2\<rparr>),
  (''risotto'', \<lparr>calories = 300, protein = 10, carbs = 45, fat = 10, fiber = 2\<rparr>),
  (''samosa'', \<lparr>calories = 200, protein = 6, carbs = 25, fat = 8, fiber = 2\<rparr>),
  (''sashimi'', \<lparr>calories = 150, protein = 25, carbs = 0, fat = 5, fiber = 0\<rparr>),
  (''scallops'', \<lparr>calories = 100, protein = 20, carbs = 2, fat = 1, fiber = 0\<rparr>),
  (''seaweed_salad'', \<lparr>calories = 50, protein = 2, carbs = 8, fat = 1, fiber = 2\<rparr>),
  (''shrimp_and_grits'', \<lparr>calories = 400, protein = 25, carbs = 35, fat = 20, fiber = 2\<rparr>),
  (''spaghetti_bolognese'', \<lparr>calories = 450, protein = 20, carbs = 50, fat = 18, fiber = 3\<rparr>),
  (''spaghetti_carbonara'', \<lparr>calories = 500, protein = 20, carbs = 45, fat = 25, fiber = 2\<rparr>),
  (''spring_rolls'', \<lparr>calories = 150, protein = 6, carbs = 20, fat = 5, fiber = 2\<rparr>),
  (''steak'', \<lparr>calories = 300, protein = 30, carbs = 0, fat = 20, fiber = 0\<rparr>),
  (''strawberry_shortcake'', \<lparr>calories = 300, protein = 5, carbs = 45, fat = 12, fiber = 2\<rparr>),
  (''sushi'', \<lparr>calories = 200, protein = 15, carbs = 25, fat = 5, fiber = 1\<rparr>),
  (''tacos'', \<lparr>calories = 250, protein = 15, carbs = 20, fat = 12, fiber = 3\<rparr>),
  (''takoyaki'', \<lparr>calories = 200, protein = 8, carbs = 25, fat = 8, fiber = 1\<rparr>),
  (''tiramisu'', \<lparr>calories = 300, protein = 6, carbs = 35, fat = 15, fiber = 1\<rparr>),
  (''tuna_tartare'', \<lparr>calories = 200, protein = 25, carbs = 2, fat = 10, fiber = 0\<rparr>),
  (''waffles'', \<lparr>calories = 300, protein = 8, carbs = 40, fat = 12, fiber = 2\<rparr>)]"

text \<open>\<^verbatim>\<open>foodDatabase[foodName]\<close>.  The table has no key \<^verbatim>\<open>__proto__\<close> and no key twice.\<close>

definition foodDatabase :: "string \<Rightarrow> nutrition js_property" where
  "foodDatabase = js_get foodTable"

section \<open>The aggregation loop of the Hugging Face code node\<close>

text \<open>
  The model covers the aggregation stage of the node, from the initialisation of the
  totals (line 46) to the \<^verbatim>\<open>return\<close> (line 204).  It takes the parsed recognition
  results and \<^verbatim>\<open>dietaryData\<close>; the HTTP request that produces the results, and
  the error the node throws when that request fails, come before it.

  The node multiplies by the constant 150/100 and divides by 10; its operands are the
  entries of the table and the default profile.  On these the products in double
  arithmetic round as the exact products do, so the node is modelled with exact
  operations.
\<close>

text \<open>
  One element of \<^verbatim>\<open>results\<close>.  The loop reads \<^verbatim>\<open>result.label\<close> and
  \<^verbatim>\<open>result.score\<close> only; the record is extensible, as a JavaScript object is, so
  a detection may carry further fields (a portion estimate, say) in its \<open>more\<close> part.
  The score arrives through JSON, which has no \<^verbatim>\<open>NaN\<close>, and is a rational.
\<close>

record detection =
  label :: string
  score :: rat

text \<open>A detection with the portion estimate that the SageMaker variant reads.\<close>

record sized_detection = detection +
  portion_size :: js_number

text \<open>
  The object \<^verbatim>\<open>foodData\<close> pushed to \<^verbatim>\<open>identifiedFoods\<close>: the five nutrient
  fields and \<^verbatim>\<open>name\<close>, \<^verbatim>\<open>confidence\<close>, \<^verbatim>\<open>estimatedWeight\<close>.
\<close>

record foodData = nutrition +
  name :: string
  confidence :: rat
  estimatedWeight :: js_number

text \<open>\<^verbatim>\<open>foodName.replace(/_/g, ' ')\<close>: every underscore becomes a space.\<close>

definition replace_underscores :: "string \<Rightarrow> string" where
  "replace_underscores s = map (\<lambda>c. if c = CHR ''_'' then CHR '' '' else c) s"

text \<open>
  \<^verbatim>\<open>const nutrition = foodDatabase[foodName] || { calories: 200, ... }\<close>
  (lines 165 to 167).  A table entry is an object, hence truthy, and so is an inherited
  member: for a label such as \<^verbatim>\<open>constructor\<close> the default is not taken and
  \<^verbatim>\<open>nutrition\<close> is that member.  It has none of the five fields; reading one gives
  \<^verbatim>\<open>undefined\<close>, which the multiplication that follows turns into \<^verbatim>\<open>NaN\<close>, so
  the model writes \<^const>\<open>NaN\<close> for each field.
\<close>

definition hf_nutrition :: "string \<Rightarrow> nutrition" where
  "hf_nutrition foodName =
     (case foodDatabase foodName of
        OwnValue n \<Rightarrow> n
      | InheritedMember \<Rightarrow> \<lparr>calories = NaN, protein = NaN, carbs = NaN, fat = NaN, fiber = NaN\<rparr>
      | Missing \<Rightarrow> \<lparr>calories = 200, protein = 10, carbs = 20, fat = 8, fiber = 2\<rparr>)"

text \<open>The body of the \<^verbatim>\<open>if\<close> up to the construction of \<^verbatim>\<open>foodData\<close> (lines 161 to 182).\<close>

definition hf_foodData :: "'a detection_scheme \<Rightarrow> foodData" where
  "hf_foodData result =
     (let foodName = label result;
          confidence' = score result;
          nutrition = hf_nutrition foodName;
          estimatedWeight' = 150;
          scaleFactor = estimatedWeight' / 100
      in \<lparr>calories = Math_round (calories nutrition * scaleFactor),
          protein = Math_round (protein nutrition * scaleFactor * 10) / 10,
          carbs = Math_round (carbs nutrition * scaleFactor * 10) / 10,
          fat = Math_round (fat nutrition * scaleFactor * 10) / 10,
          fiber = Math_round (fiber nutrition * scaleFactor * 10) / 10,
          name = replace_underscores foodName,
          confidence = confidence',
          estimatedWeight = estimatedWeight'\<rparr>)"

text \<open>
  The variables the loop updates (lines 47 to 52): the item list and the five running
  totals.
\<close>

record accumulator =
  identifiedFoods :: "foodData list"
  totalCalories :: js_number
  totalProtein :: js_number
  totalCarbs :: js_number
  totalFat :: js_number
  totalFiber :: js_number

definition initial :: accumulator where
  "initial = \<lparr>identifiedFoods = [], totalCalories = 0, totalProtein = 0,
     totalCarbs = 0, totalFat = 0, totalFiber = 0\<rparr>"

text \<open>One iteration of \<^verbatim>\<open>for (const result of results)\<close> (lines 159 to 191).\<close>

definition hf_step :: "accumulator \<Rightarrow> 'a detection_scheme \<Rightarrow> accumulator" where
  "hf_step acc result =
     (if score result > 1 / 10 then
        (let fd = hf_foodData result
         in \<lparr>identifiedFoods = identifiedFoods acc @ [fd],
             totalCalories = totalCalories acc + calories fd,
             totalProtein = totalProtein acc + protein fd,
             totalCarbs = totalCarbs acc + carbs fd,
             totalFat = totalFat acc + fat fd,
             totalFiber = totalFiber acc + fiber fd\<rparr>)
      else acc)"

definition hf_loop :: "'a detection_scheme list \<Rightarrow> accumulator" where
  "hf_loop results = foldl hf_step initial results"

text \<open>
  The object under \<^verbatim>\<open>json\<close> that the node returns (lines 193 to 204): the item list,
  \<^verbatim>\<open>totalCalories\<close> as accumulated, the four gram totals rounded to one decimal,
  \<^verbatim>\<open>dietaryData\<close> as received and \<^verbatim>\<open>imageProcessed: true\<close>.
\<close>

record hf_output = accumulator +
  dietaryData :: js_value
  imageProcessed :: bool

definition aggregate :: "'a detection_scheme list \<Rightarrow> js_value \<Rightarrow> hf_output" where
  "aggregate results dietaryData' =
     (let acc = hf_loop results
      in \<lparr>identifiedFoods = identifiedFoods acc,
          totalCalories = totalCalories acc,
          totalProtein = Math_round (totalProtein acc * 10) / 10,
          totalCarbs = Math_round (totalCarbs acc * 10) / 10,
          totalFat = Math_round (totalFat acc * 10) / 10,
          totalFiber = Math_round (totalFiber acc * 10) / 10,
          dietaryData = dietaryData',
          imageProcessed = True\<rparr>)"

text \<open>The test of the \<^verbatim>\<open>if\<close> at line 160, named for use in statements.\<close>

definition retained :: "'a detection_scheme \<Rightarrow> bool" where
  "retained result \<longleftrightarrow> score result > 1 / 10"

section \<open>The returned object\<close>

text \<open>The object literal \<^verbatim>\<open>foodData\<close> (lines 173 to 182), key by key.\<close>

definition foodData_json :: "foodData \<Rightarrow> js_value" where
  "foodData_json fd = JObj [
     (''name'', JStr (name fd)),
     (''confidence'', JNum (Fin (confidence fd))),
     (''estimatedWeight'', JNum (estimatedWeight fd)),
     (''calories'', JNum (calories fd)),
     (''protein'', JNum (protein fd)),
     (''carbs'', JNum (carbs fd)),
     (''fat'', JNum (fat fd)),
     (''fiber'', JNum (fiber fd))]"

text \<open>The object literal under \<^verbatim>\<open>json\<close> in the \<^verbatim>\<open>return\<close> (lines 194 to 203), key by key.\<close>

definition return_object :: "hf_output \<Rightarrow> (string \<times> js_value) list" where
  "return_object out = [
     (''identifiedFoods'', JArr (map foodData_json (identifiedFoods out))),
     (''totalCalories'', JNum (totalCalories out)),
     (''totalProtein'', JNum (totalProtein out)),
     (''totalCarbs'', JNum (totalCarbs out)),
     (''totalFat'', JNum (totalFat out)),
     (''totalFiber'', JNum (totalFiber out)),
     (''dietaryData'', dietaryData out),
     (''imageProcessed'', JBool (imageProcessed out))]"

text \<open>
  What a reader of a result object finds as allergy warnings: the elements of the array
  under the key \<^verbatim>\<open>allergy_warnings\<close>, and nothing when the object has no such array.
\<close>

definition allergy_warnings :: "(string \<times> js_value) list \<Rightarrow> js_value list" where
  "allergy_warnings obj =
     (case map_of obj ''allergy_warnings'' of
        Some (JArr ws) \<Rightarrow> ws
      | _ \<Rightarrow> [])"

section \<open>The helper of the SageMaker and Google Vision variants\<close>

text \<open>
  \<^verbatim>\<open>getNutritionalData(foodName, portionSize)\<close> is written out twice, once in each
  variant (lines 312 to 328 and lines 470 to 486).  Both copies abbreviate their table
  to \<^verbatim>\<open>{ /* ... same as above ... */ }\<close>, so the table is a parameter here, given
  by its entries.

  The helper scales by \<^verbatim>\<open>portionSize / 100\<close> for any portion, and there the
  product and the quotient of doubles differ from the exact ones by their rounding.
  The two operations are therefore parameters as well.  \<^verbatim>\<open>Math.round\<close> is exact on
  a double, and the integer literals denote themselves.
\<close>

record double_ops =
  product :: "js_number \<Rightarrow> js_number \<Rightarrow> js_number"
  quotient :: "js_number \<Rightarrow> js_number \<Rightarrow> js_number"

definition getNutritionalData_sagemaker ::
    "double_ops \<Rightarrow> (string \<times> nutrition) list \<Rightarrow> string \<Rightarrow> js_number \<Rightarrow> nutrition" where
  "getNutritionalData_sagemaker ops foodDatabase' foodName portionSize =
     (let nutrition =
            (case js_get foodDatabase' foodName of
               OwnValue n \<Rightarrow> n
             | InheritedMember \<Rightarrow> \<lparr>calories = NaN, protein = NaN, carbs = NaN, fat = NaN, fiber = NaN\<rparr>
             | Missing \<Rightarrow> \<lparr>calories = 200, protein = 10, carbs = 20, fat = 8, fiber = 2\<rparr>);
          scaleFactor = quotient ops portionSize 100
      in \<lparr>calories = Math_round (product ops (calories nutrition) scaleFactor),
          protein = quotient ops (Math_round (product ops (product ops (protein nutrition) scaleFactor) 10)) 10,
          carbs = quotient ops (Math_round (product ops (product ops (carbs nutrition) scaleFactor) 10)) 10,
          fat = quotient ops (Math_round (product ops (product ops (fat nutrition) scaleFactor) 10)) 10,
          fiber = quotient ops (Math_round (product ops (product ops (fiber nutrition) scaleFactor) 10)) 10\<rparr>)"

definition getNutritionalData_google ::
    "double_ops \<Rightarrow> (string \<times> nutrition) list \<Rightarrow> string \<Rightarrow> js_number \<Rightarrow> nutrition" where
  "getNutritionalData_google ops foodDatabase' foodName portionSize =
     (let nutrition =
            (case js_get foodDatabase' foodName of
               OwnValue n \<Rightarrow> n
             | InheritedMember \<Rightarrow> \<lparr>calories = NaN, protein = NaN, carbs = NaN, fat = NaN, fiber = NaN\<rparr>
             | Missing \<Rightarrow> \<lparr>calories = 200, protein = 10, carbs = 20, fat = 8, fiber = 2\<rparr>);
          scaleFactor = quotient ops portionSize 100
      in \<lparr>calories = Math_round (product ops (calories nutrition) scaleFactor),
          protein = quotient ops (Math_round (product ops (product ops (protein nutrition) scaleFactor) 10)) 10,
          carbs = quotient ops (Math_round (product ops (product ops (carbs nutrition) scaleFactor) 10)) 10,
          fat = quotient ops (Math_round (product ops (product ops (fat nutrition) scaleFactor) 10)) 10,
          fiber = quotient ops (Math_round (product ops (product ops (fiber nutrition) scaleFactor) 10)) 10\<rparr>)"

text \<open>
  What the code does to a per-100 g entry once it has it: multiply by the scale factor,
  round calories to a whole number and grams to one decimal.  Used to state that the
  default profile and a table entry are treated alike.
\<close>

definition scale_entry :: "double_ops \<Rightarrow> nutrition \<Rightarrow> js_number \<Rightarrow> nutrition" where
  "scale_entry ops n scaleFactor =
     \<lparr>calories = Math_round (product ops (calories n) scaleFactor),
      protein = quotient ops (Math_round (product ops (product ops (protein n) scaleFactor) 10)) 10,
      carbs = quotient ops (Math_round (product ops (product ops (carbs n) scaleFactor) 10)) 10,
      fat = quotient ops (Math_round (product ops (product ops (fat n) scaleFactor) 10)) 10,
      fiber = quotient ops (Math_round (product ops (product ops (fiber n) scaleFactor) 10)) 10\<rparr>"

text \<open>
  The exact operations: the ones the Hugging Face node is modelled with, and one value
  of the parameter of the helpers.
\<close>

definition exact_ops :: double_ops where
  "exact_ops = \<lparr>product = (*), quotient = (/)\<rparr>"

section \<open>The planner's basal metabolic rate\<close>

text \<open>The planner's \<^verbatim>\<open>sex\<close> field takes one of two values.\<close>

datatype sex = Male | Female

text \<open>
  Modelled from the spec: \<^verbatim>\<open>calculate_bmr(weight, height, age, gender)\<close> of the
  Python planning service (\<^verbatim>\<open>dietary_planner.py\<close>) is not among the sources; only
  its signature, its documented formula and one test of it are.  The definition follows
  the spec's sentence
  \<^verbatim>\<open>BMR = 10*weight_kg + 6.25*height_cm - 5*age_years + (5 if male else -161)\<close>,
  with the argument types of the documented signature (an integer age).
\<close>

definition calculate_bmr :: "rat \<Rightarrow> rat \<Rightarrow> int \<Rightarrow> sex \<Rightarrow> rat" where
  "calculate_bmr weight height age gender =
     10 * weight + 625 / 100 * height - 5 * of_int age + (if gender = Male then 5 else - 161)"

section \<open>Auxiliary facts\<close>

lemma Fin_plus: "Fin x + Fin y = Fin (x + y)"
  by (simp add: plus_js_number_def)

lemma numeral_js: "(numeral k :: js_number) = Fin (numeral k)"
proof (induction k)
  case One
  show ?case by (simp add: one_js_number_def)
next
  case (Bit0 k)
  have "(numeral (num.Bit0 k) :: js_number) = numeral k + numeral k"
    by (simp only: numeral.simps)
  also have "\<dots> = Fin (numeral k + numeral k)"
    by (simp only: Bit0.IH Fin_plus)
  also have "numeral k + numeral k = (numeral (num.Bit0 k) :: rat)"
    by (simp only: numeral.simps)
  finally show ?case .
next
  case (Bit1 k)
  have "(numeral (num.Bit1 k) :: js_number) = numeral k + numeral k + 1"
    by (simp only: numeral.simps)
  also have "\<dots> = Fin (numeral k + numeral k + 1)"
    by (simp only: Bit1.IH Fin_plus one_js_number_def)
  also have "numeral k + numeral k + 1 = (numeral (num.Bit1 k) :: rat)"
    by (simp only: numeral.simps)
  finally show ?case .
qed

lemma Fin_arith:
  "Fin x + Fin y = Fin (x + y)"
  "Fin x * Fin y = Fin (x * y)"
  "y \<noteq> 0 \<Longrightarrow> Fin x / Fin y = Fin (x / y)"
  "Math_round (Fin x) = Fin (of_int \<lfloor>x + 1 / 2\<rfloor>)"
  "(0 :: js_number) = Fin 0"
  "(1 :: js_number) = Fin 1"
  by (simp_all add: plus_js_number_def times_js_number_def divide_js_number_def Math_round_def
      zero_js_number_def one_js_number_def)

lemma NaN_arith:
  "NaN + a = NaN" "a + NaN = NaN" "NaN * a = NaN" "a * NaN = NaN" "NaN / a = NaN" "a / NaN = NaN"
  "Math_round NaN = NaN"
  by (simp_all add: plus_js_number_def times_js_number_def divide_js_number_def Math_round_def
      split: js_number.splits)

lemmas js_eval = numeral_js Fin_arith NaN_arith floor_eq_iff

lemma Math_round_0 [simp]: "Math_round 0 = 0"
  by (simp add: js_eval)

lemma hf_step_retained:
  "retained r \<Longrightarrow> hf_step acc r =
     \<lparr>identifiedFoods = identifiedFoods acc @ [hf_foodData r],
      totalCalories = totalCalories acc + calories (hf_foodData r),
      totalProtein = totalProtein acc + protein (hf_foodData r),
      totalCarbs = totalCarbs acc + carbs (hf_foodData r),
      totalFat = totalFat acc + fat (hf_foodData r),
      totalFiber = totalFiber acc + fiber (hf_foodData r)\<rparr>"
  by (simp add: hf_step_def retained_def Let_def)

lemma hf_step_dropped: "\<not> retained r \<Longrightarrow> hf_step acc r = acc"
  by (simp add: hf_step_def retained_def)

lemma foldl_hf_step:
  "foldl hf_step acc rs =
     \<lparr>identifiedFoods = identifiedFoods acc @ map hf_foodData (filter retained rs),
      totalCalories = totalCalories acc + sum_list (map (\<lambda>r. calories (hf_foodData r)) (filter retained rs)),
      totalProtein = totalProtein acc + sum_list (map (\<lambda>r. protein (hf_foodData r)) (filter retained rs)),
      totalCarbs = totalCarbs acc + sum_list (map (\<lambda>r. carbs (hf_foodData r)) (filter retained rs)),
      totalFat = totalFat acc + sum_list (map (\<lambda>r. fat (hf_foodData r)) (filter retained rs)),
      totalFiber = totalFiber acc + sum_list (map (\<lambda>r. fiber (hf_foodData r)) (filter retained rs))\<rparr>"
proof (induction rs arbitrary: acc)
  case Nil
  show ?case by simp
next
  case (Cons r rs)
  show ?case
  proof (cases "retained r")
    case True
    then show ?thesis
      by (simp add: Cons.IH hf_step_retained add.assoc)
  next
    case False
    then show ?thesis
      by (simp add: Cons.IH hf_step_dropped)
  qed
qed

lemma aggregate_eq:
  "aggregate rs dd =
     \<lparr>identifiedFoods = map hf_foodData (filter retained rs),
      totalCalories = sum_list (map (\<lambda>r. calories (hf_foodData r)) (filter retained rs)),
      totalProtein = Math_round (sum_list (map (\<lambda>r. protein (hf_foodData r)) (filter retained rs)) * 10) / 10,
      totalCarbs = Math_round (sum_list (map (\<lambda>r. carbs (hf_foodData r)) (filter retained rs)) * 10) / 10,
      totalFat = Math_round (sum_list (map (\<lambda>r. fat (hf_foodData r)) (filter retained rs)) * 10) / 10,
      totalFiber = Math_round (sum_list (map (\<lambda>r. fiber (hf_foodData r)) (filter retained rs)) * 10) / 10,
      dietaryData = dd,
      imageProcessed = True\<rparr>"
  by (simp add: aggregate_def hf_loop_def foldl_hf_step initial_def)

lemma hf_foodData_weight: "estimatedWeight (hf_foodData r) = 150"
  by (simp add: hf_foodData_def Let_def)

lemma hf_foodData_cong:
  "label r = label r' \<Longrightarrow> score r = score r' \<Longrightarrow> hf_foodData r = hf_foodData r'"
  by (simp add: hf_foodData_def)

lemma plain_foodTable: "plain_literal foodTable"
  by (simp add: plain_literal_def foodTable_def)

lemma lookup_apple_pie:
  "foodDatabase ''apple_pie'' =
     OwnValue \<lparr>calories = 237, protein = 24 / 10, carbs = 34, fat = 11, fiber = 16 / 10\<rparr>"
  by (simp add: foodDatabase_def js_get_def foodTable_def)

lemma lookup_pizza:
  "foodDatabase ''pizza'' = OwnValue \<lparr>calories = 400, protein = 18, carbs = 45, fat = 18, fiber = 2\<rparr>"
  by (simp add: foodDatabase_def js_get_def foodTable_def)

lemma lookup_mystery_food: "foodDatabase ''mystery_food'' = Missing"
  by (simp add: foodDatabase_def js_get_def foodTable_def Object_prototype_members_def)

lemma lookup_constructor: "foodDatabase ''constructor'' = InheritedMember"
  by (simp add: foodDatabase_def js_get_def foodTable_def Object_prototype_members_def)

lemma hf_foodData_calories:
  "calories (hf_foodData r) = Math_round (calories (hf_nutrition (label r)) * (150 / 100))"
  by (simp add: hf_foodData_def Let_def)

lemma hf_foodData_eq:
  "hf_foodData r =
     \<lparr>calories = Math_round (calories (hf_nutrition (label r)) * (3 / 2)),
      protein = Math_round (protein (hf_nutrition (label r)) * (3 / 2) * 10) / 10,
      carbs = Math_round (carbs (hf_nutrition (label r)) * (3 / 2) * 10) / 10,
      fat = Math_round (fat (hf_nutrition (label r)) * (3 / 2) * 10) / 10,
      fiber = Math_round (fiber (hf_nutrition (label r)) * (3 / 2) * 10) / 10,
      name = replace_underscores (label r),
      confidence = score r,
      estimatedWeight = 150\<rparr>"
proof -
  have "(150 :: js_number) / 100 = 3 / 2" by (simp add: js_eval)
  then show ?thesis
    unfolding hf_foodData_def Let_def by (simp only:)
qed

lemma items_weight:
  fixes rs :: "'a detection_scheme list"
  shows "\<forall>fd \<in> set (identifiedFoods (aggregate rs dd)). estimatedWeight fd = 150"
proof
  fix fd assume "fd \<in> set (identifiedFoods (aggregate rs dd))"
  then obtain r :: "'a detection_scheme" where "fd = hf_foodData r"
    unfolding aggregate_eq by auto
  then show "estimatedWeight fd = 150"
    by (simp only: hf_foodData_weight)
qed

lemma aggregate_cong:
  fixes rs :: "'a detection_scheme list" and rs' :: "'b detection_scheme list"
  assumes "map label rs = map label rs'" and "map score rs = map score rs'"
  shows "aggregate rs dd = aggregate rs' dd"
proof -
  have "map hf_foodData (filter retained rs) = map hf_foodData (filter retained rs')"
    using assms
  proof (induction rs arbitrary: rs')
    case Nil
    then show ?case by simp
  next
    case (Cons r rs)
    then obtain r' rs'' where rs': "rs' = r' # rs''"
      by (cases rs') auto
    with Cons.prems have eq: "label r = label r'" "score r = score r'"
      and rest: "map label rs = map label rs''" "map score rs = map score rs''"
      by auto
    have "retained r = retained r'"
      using eq by (simp add: retained_def)
    moreover have "hf_foodData r = hf_foodData r'"
      using eq by (rule hf_foodData_cong)
    ultimately show ?case
      using Cons.IH [OF rest] rs' by simp
  qed
  then have items: "map hf_foodData (filter retained rs) = map hf_foodData (filter retained rs')" .
  have sums: "sum_list (map (\<lambda>r. f (hf_foodData r)) (filter retained rs))
      = sum_list (map (\<lambda>r. f (hf_foodData r)) (filter retained rs'))" for f :: "foodData \<Rightarrow> js_number"
  proof -
    have "map (\<lambda>r. f (hf_foodData r)) (filter retained rs) = map f (map hf_foodData (filter retained rs))"
      by simp
    also have "\<dots> = map f (map hf_foodData (filter retained rs'))"
      by (simp only: items)
    also have "\<dots> = map (\<lambda>r. f (hf_foodData r)) (filter retained rs')"
      by simp
    finally show ?thesis by simp
  qed
  show ?thesis
    by (simp only: aggregate_eq items sums)
qed

lemma hf_foodData_fields:
  "calories (hf_foodData r) = Math_round (calories (hf_nutrition (label r)) * (150 / 100))"
  "protein (hf_foodData r) = Math_round (protein (hf_nutrition (label r)) * (150 / 100) * 10) / 10"
  "carbs (hf_foodData r) = Math_round (carbs (hf_nutrition (label r)) * (150 / 100) * 10) / 10"
  "fat (hf_foodData r) = Math_round (fat (hf_nutrition (label r)) * (150 / 100) * 10) / 10"
  "fiber (hf_foodData r) = Math_round (fiber (hf_nutrition (label r)) * (150 / 100) * 10) / 10"
  by (simp_all add: hf_foodData_def Let_def)

lemma hf_foodData_scale_entry:
  "nutrition.truncate (hf_foodData r) = scale_entry exact_ops (hf_nutrition (label r)) (150 / 100)"
  by (simp add: hf_foodData_def scale_entry_def exact_ops_def nutrition.truncate_def Let_def)

lemma hf_foodData_missing:
  assumes "foodDatabase (label r) = Missing"
  shows "hf_foodData r =
     \<lparr>calories = 300, protein = 15, carbs = 30, fat = 12, fiber = 3,
      name = replace_underscores (label r), confidence = score r, estimatedWeight = 150\<rparr>"
  using assms by (simp add: hf_foodData_def hf_nutrition_def Let_def js_eval)

lemma getNutritionalData_sagemaker_scale_entry:
  "getNutritionalData_sagemaker ops tbl foodName portionSize =
     scale_entry ops
       (case js_get tbl foodName of
          OwnValue n \<Rightarrow> n
        | InheritedMember \<Rightarrow> \<lparr>calories = NaN, protein = NaN, carbs = NaN, fat = NaN, fiber = NaN\<rparr>
        | Missing \<Rightarrow> \<lparr>calories = 200, protein = 10, carbs = 20, fat = 8, fiber = 2\<rparr>)
       (quotient ops portionSize 100)"
  unfolding getNutritionalData_sagemaker_def scale_entry_def Let_def by (rule refl)

lemma getNutritionalData_google_scale_entry:
  "getNutritionalData_google ops tbl foodName portionSize =
     scale_entry ops
       (case js_get tbl foodName of
          OwnValue n \<Rightarrow> n
        | InheritedMember \<Rightarrow> \<lparr>calories = NaN, protein = NaN, carbs = NaN, fat = NaN, fiber = NaN\<rparr>
        | Missing \<Rightarrow> \<lparr>calories = 200, protein = 10, carbs = 20, fat = 8, fiber = 2\<rparr>)
       (quotient ops portionSize 100)"
  unfolding getNutritionalData_google_def scale_entry_def Let_def by (rule refl)

section \<open>The aggregation node: confirmed behaviour\<close>

text \<open>
  C8.  A detection whose score is exactly 0.1 is dropped: the test is the strict
  \<^verbatim>\<open>result.score > 0.1\<close>, so the output is the one obtained without that detection.
\<close>

theorem threshold_is_strict:
  "score r = 1 / 10 \<Longrightarrow> aggregate (rs1 @ r # rs2) dd = aggregate (rs1 @ rs2) dd"
  by (simp add: aggregate_eq retained_def)

theorem threshold_is_strict_witness:
  "score \<lparr>label = ''sushi'', score = 1 / 10\<rparr> = 1 / 10
   \<and> aggregate ([\<lparr>label = ''pizza'', score = 9 / 10\<rparr>] @ \<lparr>label = ''sushi'', score = 1 / 10\<rparr> # []) JNull
     = aggregate ([\<lparr>label = ''pizza'', score = 9 / 10\<rparr>] @ []) JNull"
  using threshold_is_strict [of "\<lparr>label = ''sushi'', score = 1 / 10\<rparr>" "[\<lparr>label = ''pizza'', score = 9 / 10\<rparr>]" "[]" JNull]
  by simp

text \<open>
  C9.  In the Hugging Face node every item gets \<^verbatim>\<open>estimatedWeight = 150\<close>, every
  nutrient is scaled by 150/100 = 3/2, and the output depends on the labels and scores
  only: two detection lists that agree on them give the same output, whatever other
  fields (a portion estimate, for one) their elements carry.
\<close>

theorem fixed_portion:
  fixes rs :: "'a detection_scheme list" and rs' :: "'b detection_scheme list"
  shows "(\<forall>fd \<in> set (identifiedFoods (aggregate rs dd)). estimatedWeight fd = 150)
   \<and> (\<forall>r :: 'a detection_scheme.
        calories (hf_foodData r) = Math_round (calories (hf_nutrition (label r)) * (3 / 2))
      \<and> protein (hf_foodData r) = Math_round (protein (hf_nutrition (label r)) * (3 / 2) * 10) / 10
      \<and> carbs (hf_foodData r) = Math_round (carbs (hf_nutrition (label r)) * (3 / 2) * 10) / 10
      \<and> fat (hf_foodData r) = Math_round (fat (hf_nutrition (label r)) * (3 / 2) * 10) / 10
      \<and> fiber (hf_foodData r) = Math_round (fiber (hf_nutrition (label r)) * (3 / 2) * 10) / 10)
   \<and> (map label rs = map label rs' \<and> map score rs = map score rs' \<longrightarrow> aggregate rs dd = aggregate rs' dd)"
proof (intro conjI allI impI)
  show "\<forall>fd \<in> set (identifiedFoods (aggregate rs dd)). estimatedWeight fd = 150"
    by (rule items_weight)
next
  assume "map label rs = map label rs' \<and> map score rs = map score rs'"
  then have "map label rs = map label rs'" and "map score rs = map score rs'"
    by (rule conjunct1, rule conjunct2)
  then show "aggregate rs dd = aggregate rs' dd"
    by (rule aggregate_cong)
qed (simp_all only: hf_foodData_eq [of "r :: 'a detection_scheme" for r] nutrition.simps foodData.simps)

theorem fixed_portion_witness:
  "estimatedWeight (hd (identifiedFoods (aggregate [\<lparr>label = ''pizza'', score = 9 / 10, portion_size = 300\<rparr>] JNull))) = 150
   \<and> aggregate [\<lparr>label = ''pizza'', score = 9 / 10, portion_size = 300\<rparr>] JNull
     = aggregate [\<lparr>label = ''pizza'', score = 9 / 10\<rparr>] JNull"
proof -
  let ?sized = "[\<lparr>label = ''pizza'', score = 9 / 10, portion_size = 300\<rparr>]"
  let ?plain = "[\<lparr>label = ''pizza'', score = 9 / 10\<rparr>]"
  note t = fixed_portion [of ?sized JNull ?plain]
  have items: "identifiedFoods (aggregate ?sized JNull) = [hf_foodData (hd ?sized)]"
    by (simp add: aggregate_eq retained_def)
  have mem: "hd (identifiedFoods (aggregate ?sized JNull)) \<in> set (identifiedFoods (aggregate ?sized JNull))"
    by (simp only: items list.sel list.set insertI1)
  from t have "\<forall>fd \<in> set (identifiedFoods (aggregate ?sized JNull)). estimatedWeight fd = 150"
    by (rule conjunct1)
  from this mem have a: "estimatedWeight (hd (identifiedFoods (aggregate ?sized JNull))) = 150"
    by (rule bspec)
  have eqs: "map label ?sized = map label ?plain \<and> map score ?sized = map score ?plain"
    by simp
  from t [THEN conjunct2, THEN conjunct2] eqs have b: "aggregate ?sized JNull = aggregate ?plain JNull"
    by (rule mp)
  from a b show ?thesis by (rule conjI)
qed

text \<open>
  C10.  When the lookup finds nothing (neither an own entry nor an inherited member),
  each of the three variants that look a label up (the Hugging Face node and the two
  copies of \<^verbatim>\<open>getNutritionalData\<close>) takes the profile 200, 10, 20, 8, 2 per 100 g
  and treats it exactly as it treats a table entry: the result is the \<^const>\<open>scale_entry\<close>
  of the profile, by \<^verbatim>\<open>portionSize / 100\<close> in the helpers and by 150/100 in the
  Hugging Face node.  For the helpers this holds whatever the product and the quotient
  of doubles are.  The instance that follows takes the exact operations at portions of
  250 g and 200 g, where the factors 2.5 and 2 and every product are exact in doubles.
\<close>

theorem default_profile_all_variants:
  fixes r :: "'a detection_scheme" and r' :: "'b detection_scheme"
  shows "(plain_literal tbl \<and> js_get tbl foodName = Missing \<longrightarrow>
       getNutritionalData_sagemaker ops tbl foodName portionSize
         = scale_entry ops \<lparr>calories = 200, protein = 10, carbs = 20, fat = 8, fiber = 2\<rparr>
             (quotient ops portionSize 100)
     \<and> getNutritionalData_google ops tbl foodName portionSize
         = scale_entry ops \<lparr>calories = 200, protein = 10, carbs = 20, fat = 8, fiber = 2\<rparr>
             (quotient ops portionSize 100))
   \<and> (plain_literal tbl' \<and> js_get tbl' foodName' = OwnValue n \<longrightarrow>
       getNutritionalData_sagemaker ops tbl' foodName' portionSize'
         = scale_entry ops n (quotient ops portionSize' 100)
     \<and> getNutritionalData_google ops tbl' foodName' portionSize'
         = scale_entry ops n (quotient ops portionSize' 100))
   \<and> (foodDatabase (label r) = Missing \<longrightarrow>
       hf_nutrition (label r) = \<lparr>calories = 200, protein = 10, carbs = 20, fat = 8, fiber = 2\<rparr>
     \<and> nutrition.truncate (hf_foodData r)
         = scale_entry exact_ops \<lparr>calories = 200, protein = 10, carbs = 20, fat = 8, fiber = 2\<rparr>
             (150 / 100))
   \<and> (foodDatabase (label r') = OwnValue n' \<longrightarrow>
       hf_nutrition (label r') = n'
     \<and> nutrition.truncate (hf_foodData r') = scale_entry exact_ops n' (150 / 100))"
  by (simp add: getNutritionalData_sagemaker_scale_entry getNutritionalData_google_scale_entry
      hf_foodData_scale_entry hf_nutrition_def)

theorem default_profile_all_variants_witness:
  "getNutritionalData_sagemaker exact_ops foodTable ''mystery_food'' 250
     = \<lparr>calories = 500, protein = 25, carbs = 50, fat = 20, fiber = 5\<rparr>
   \<and> getNutritionalData_google exact_ops foodTable ''mystery_food'' 250
     = \<lparr>calories = 500, protein = 25, carbs = 50, fat = 20, fiber = 5\<rparr>
   \<and> getNutritionalData_sagemaker exact_ops foodTable ''pizza'' 200
     = \<lparr>calories = 800, protein = 36, carbs = 90, fat = 36, fiber = 4\<rparr>
   \<and> getNutritionalData_google exact_ops foodTable ''pizza'' 200
     = \<lparr>calories = 800, protein = 36, carbs = 90, fat = 36, fiber = 4\<rparr>
   \<and> nutrition.truncate (hf_foodData \<lparr>label = ''mystery_food'', score = 9 / 10\<rparr>)
     = \<lparr>calories = 300, protein = 15, carbs = 30, fat = 12, fiber = 3\<rparr>
   \<and> nutrition.truncate (hf_foodData \<lparr>label = ''pizza'', score = 8 / 10\<rparr>)
     = \<lparr>calories = 600, protein = 27, carbs = 135 / 2, fat = 27, fiber = 3\<rparr>"
proof -
  let ?miss = "\<lparr>label = ''mystery_food'', score = 9 / 10\<rparr>"
  let ?hit = "\<lparr>label = ''pizza'', score = 8 / 10\<rparr>"
  let ?default = "\<lparr>calories = 200, protein = 10, carbs = 20, fat = 8, fiber = 2\<rparr>"
  let ?pizza = "\<lparr>calories = 400, protein = 18, carbs = 45, fat = 18, fiber = 2\<rparr>"
  have h0: "plain_literal foodTable"
    by (rule plain_foodTable)
  have h1: "js_get foodTable ''mystery_food'' = Missing"
    using lookup_mystery_food by (simp only: foodDatabase_def)
  have h2: "js_get foodTable ''pizza'' = OwnValue ?pizza"
    using lookup_pizza by (simp only: foodDatabase_def)
  have h3: "foodDatabase (label ?miss) = Missing"
    by (simp add: lookup_mystery_food)
  have h4: "foodDatabase (label ?hit) = OwnValue ?pizza"
    by (simp add: lookup_pizza)
  have s1: "scale_entry exact_ops ?default (quotient exact_ops 250 100)
      = \<lparr>calories = 500, protein = 25, carbs = 50, fat = 20, fiber = 5\<rparr>"
    by (simp add: scale_entry_def exact_ops_def js_eval)
  have s2: "scale_entry exact_ops ?pizza (quotient exact_ops 200 100)
      = \<lparr>calories = 800, protein = 36, carbs = 90, fat = 36, fiber = 4\<rparr>"
    by (simp add: scale_entry_def exact_ops_def js_eval)
  have s3: "scale_entry exact_ops ?default (150 / 100)
      = \<lparr>calories = 300, protein = 15, carbs = 30, fat = 12, fiber = 3\<rparr>"
    by (simp add: scale_entry_def exact_ops_def js_eval)
  have s4: "scale_entry exact_ops ?pizza (150 / 100)
      = \<lparr>calories = 600, protein = 27, carbs = 135 / 2, fat = 27, fiber = 3\<rparr>"
    by (simp add: scale_entry_def exact_ops_def js_eval)
  note t = default_profile_all_variants [of foodTable "''mystery_food''" exact_ops 250
      foodTable "''pizza''" ?pizza 200 ?miss ?hit ?pizza]
  show ?thesis
    using t h0 h1 h2 h3 h4 unfolding s1 s2 s3 s4 by blast
qed

section \<open>The confidence threshold\<close>

text \<open>
  A detection whose score is below 0.1 is dropped, like one at exactly 0.1.  This is
  the behaviour that C5 describes.  C5 also says that the threshold is a named constant
  and not an inline literal; that is a property of the program text (the source writes
  \<^verbatim>\<open>0.1\<close> inside the comparison at line 160, and again at lines 269 and 375), and a
  shallow embedding has no term for it.
\<close>

lemma below_threshold_discarded:
  "score r < 1 / 10 \<Longrightarrow> aggregate (rs1 @ r # rs2) dd = aggregate (rs1 @ rs2) dd"
  by (simp add: aggregate_eq retained_def)

section \<open>The aggregation node: where the code differs\<close>

text \<open>
  C2, as amended.  \<^verbatim>\<open>totalCalories\<close> is exactly the sum of the \<^verbatim>\<open>calories\<close>
  fields of the items, and it is not rounded when the object is returned.  Each item's
  \<^verbatim>\<open>calories\<close> was rounded to a whole number by \<^verbatim>\<open>Math.round\<close> when the item was
  built, before it entered the sum.
\<close>

theorem calories_sum_of_rounded_items:
  "totalCalories (aggregate rs dd) = sum_list (map calories (identifiedFoods (aggregate rs dd)))
   \<and> map calories (identifiedFoods (aggregate rs dd))
       = map (\<lambda>r. Math_round (calories (hf_nutrition (label r)) * (150 / 100))) (filter retained rs)"
  by (simp add: aggregate_eq hf_foodData_calories comp_def)

text \<open>
  Two servings of apple pie (237 kcal per 100 g, so 355.5 kcal per 150 g): each item is
  rounded to 356 and the total is 712, while rounding the exact sum once at the end
  gives 711.  Rounding is therefore not confined to the return boundary.
\<close>

theorem rounding_at_boundary_counterexample:
  "totalCalories (aggregate [\<lparr>label = ''apple_pie'', score = 9 / 10\<rparr>,
                             \<lparr>label = ''apple_pie'', score = 8 / 10\<rparr>] JNull) = 712
   \<and> Math_round (calories (hf_nutrition ''apple_pie'') * (150 / 100)
                 + calories (hf_nutrition ''apple_pie'') * (150 / 100)) = 711
   \<and> totalCalories (aggregate [\<lparr>label = ''apple_pie'', score = 9 / 10\<rparr>,
                             \<lparr>label = ''apple_pie'', score = 8 / 10\<rparr>] JNull)
       \<noteq> Math_round (calories (hf_nutrition ''apple_pie'') * (150 / 100)
                 + calories (hf_nutrition ''apple_pie'') * (150 / 100))"
  by (simp add: aggregate_eq retained_def hf_foodData_calories hf_nutrition_def lookup_apple_pie
      js_eval)

text \<open>
  C3, as amended.  The item list holds one item per retained detection, in input order.
  The nutrient fields of every item are the per-100 g profile of its label multiplied
  by the fixed factor 150/100 and rounded (calories to a whole number, grams to one
  decimal); the factor is the node's own constant and not a mass that the detection
  carries.  The totals are the sums of these item fields, the four gram totals rounded
  to one decimal when the object is returned.
\<close>

theorem items_scaled_by_fixed_portion:
  fixes rs :: "'a detection_scheme list"
  shows "identifiedFoods (aggregate rs dd) = map hf_foodData (filter retained rs)
   \<and> (\<forall>r :: 'a detection_scheme.
         calories (hf_foodData r) = Math_round (calories (hf_nutrition (label r)) * (150 / 100))
       \<and> protein (hf_foodData r) = Math_round (protein (hf_nutrition (label r)) * (150 / 100) * 10) / 10
       \<and> carbs (hf_foodData r) = Math_round (carbs (hf_nutrition (label r)) * (150 / 100) * 10) / 10
       \<and> fat (hf_foodData r) = Math_round (fat (hf_nutrition (label r)) * (150 / 100) * 10) / 10
       \<and> fiber (hf_foodData r) = Math_round (fiber (hf_nutrition (label r)) * (150 / 100) * 10) / 10)
   \<and> totalCalories (aggregate rs dd) = sum_list (map calories (identifiedFoods (aggregate rs dd)))
   \<and> totalProtein (aggregate rs dd) = Math_round (sum_list (map protein (identifiedFoods (aggregate rs dd))) * 10) / 10
   \<and> totalCarbs (aggregate rs dd) = Math_round (sum_list (map carbs (identifiedFoods (aggregate rs dd))) * 10) / 10
   \<and> totalFat (aggregate rs dd) = Math_round (sum_list (map fat (identifiedFoods (aggregate rs dd))) * 10) / 10
   \<and> totalFiber (aggregate rs dd) = Math_round (sum_list (map fiber (identifiedFoods (aggregate rs dd))) * 10) / 10"
proof -
  have totals: "identifiedFoods (aggregate rs dd) = map hf_foodData (filter retained rs)"
    "totalCalories (aggregate rs dd) = sum_list (map calories (identifiedFoods (aggregate rs dd)))"
    "totalProtein (aggregate rs dd) = Math_round (sum_list (map protein (identifiedFoods (aggregate rs dd))) * 10) / 10"
    "totalCarbs (aggregate rs dd) = Math_round (sum_list (map carbs (identifiedFoods (aggregate rs dd))) * 10) / 10"
    "totalFat (aggregate rs dd) = Math_round (sum_list (map fat (identifiedFoods (aggregate rs dd))) * 10) / 10"
    "totalFiber (aggregate rs dd) = Math_round (sum_list (map fiber (identifiedFoods (aggregate rs dd))) * 10) / 10"
    by (simp_all add: aggregate_eq comp_def)
  show ?thesis
    by (intro conjI allI) (rule totals hf_foodData_fields)+
qed

text \<open>
  A pizza detection that carries a portion estimate of 300 g: the item holds 600 kcal
  (400 kcal per 100 g times 150/100), where scaling by the detection's own mass would
  give 1200.
\<close>

theorem detection_mass_ignored_counterexample:
  "map calories (identifiedFoods
      (aggregate [\<lparr>label = ''pizza'', score = 9 / 10, portion_size = 300\<rparr>] JNull)) = [600]
   \<and> Math_round (calories (hf_nutrition ''pizza'')
        * (portion_size \<lparr>label = ''pizza'', score = 9 / 10, portion_size = 300\<rparr> / 100)) = 1200
   \<and> map calories (identifiedFoods
      (aggregate [\<lparr>label = ''pizza'', score = 9 / 10, portion_size = 300\<rparr>] JNull))
       \<noteq> [Math_round (calories (hf_nutrition ''pizza'')
            * (portion_size \<lparr>label = ''pizza'', score = 9 / 10, portion_size = 300\<rparr> / 100))]"
proof -
  have item: "map calories (identifiedFoods
      (aggregate [\<lparr>label = ''pizza'', score = 9 / 10, portion_size = 300\<rparr>] JNull)) = [600]"
    by (simp add: aggregate_eq retained_def hf_foodData_calories hf_nutrition_def lookup_pizza js_eval)
  have by_mass: "Math_round (calories (hf_nutrition ''pizza'')
        * (portion_size \<lparr>label = ''pizza'', score = 9 / 10, portion_size = 300\<rparr> / 100)) = 1200"
    by (simp add: hf_nutrition_def lookup_pizza js_eval)
  have differ: "(600 :: js_number) \<noteq> 1200"
    by (simp add: numeral_js)
  show ?thesis
    unfolding item by_mass using differ by simp
qed

text \<open>
  C4, as amended.  The Hugging Face node performs no allergen check.  Its returned
  object has exactly eight keys, none of which holds warnings; \<^verbatim>\<open>dietaryData\<close>
  (which carries the user's allergies) is passed through unchanged and influences
  nothing else in the output.
\<close>

theorem no_allergen_check:
  "allergy_warnings (return_object (aggregate rs dd)) = []
   \<and> map fst (return_object (aggregate rs dd)) =
       [''identifiedFoods'', ''totalCalories'', ''totalProtein'', ''totalCarbs'',
        ''totalFat'', ''totalFiber'', ''dietaryData'', ''imageProcessed'']
   \<and> dietaryData (aggregate rs dd) = dd
   \<and> aggregate rs dd' = (aggregate rs dd)\<lparr>dietaryData := dd'\<rparr>"
  by (simp add: aggregate_eq allergy_warnings_def return_object_def)

text \<open>
  Baklava, a nut pastry, detected with confidence 0.9 for a user whose dietary data
  lists nuts: the detection is retained and the returned object holds no warning.
\<close>

theorem no_warning_counterexample:
  "map name (identifiedFoods (aggregate [\<lparr>label = ''baklava'', score = 9 / 10\<rparr>]
        (JObj [(''allergies'', JStr ''nuts'')]))) = [''baklava'']
   \<and> allergy_warnings (return_object (aggregate [\<lparr>label = ''baklava'', score = 9 / 10\<rparr>]
        (JObj [(''allergies'', JStr ''nuts'')]))) = []"
  by (simp add: aggregate_eq retained_def hf_foodData_eq replace_underscores_def
      allergy_warnings_def return_object_def)

text \<open>
  C7, as amended.  On an empty detection list the node returns an empty item list and
  five totals that are all zero, with \<^verbatim>\<open>dietaryData\<close> passed through.  The returned
  object has the eight keys shown and no warning list, empty or not.  The loop body
  never runs, and no statement of the aggregation code can throw on a list of label and
  score records, so the model is a total function.
\<close>

theorem empty_detections:
  "aggregate [] dd =
     \<lparr>identifiedFoods = [], totalCalories = 0, totalProtein = 0, totalCarbs = 0,
      totalFat = 0, totalFiber = 0, dietaryData = dd, imageProcessed = True\<rparr>
   \<and> return_object (aggregate [] dd) =
       [(''identifiedFoods'', JArr []), (''totalCalories'', JNum 0), (''totalProtein'', JNum 0),
        (''totalCarbs'', JNum 0), (''totalFat'', JNum 0), (''totalFiber'', JNum 0),
        (''dietaryData'', dd), (''imageProcessed'', JBool True)]"
proof -
  have z: "Math_round (0 * 10) / 10 = 0"
    by (simp add: js_eval)
  show ?thesis
    by (simp add: aggregate_eq return_object_def z)
qed

text \<open>
  The object returned for the empty list, in full: its only list is the item list, and
  nothing is stored under \<^verbatim>\<open>allergy_warnings\<close>.
\<close>

theorem empty_warning_list_counterexample:
  "return_object (aggregate ([] :: detection list) JNull) =
       [(''identifiedFoods'', JArr []), (''totalCalories'', JNum 0), (''totalProtein'', JNum 0),
        (''totalCarbs'', JNum 0), (''totalFat'', JNum 0), (''totalFiber'', JNum 0),
        (''dietaryData'', JNull), (''imageProcessed'', JBool True)]
   \<and> map_of (return_object (aggregate ([] :: detection list) JNull)) ''allergy_warnings'' = None"
proof -
  have z: "Math_round (0 * 10) / 10 = 0"
    by (simp add: js_eval)
  show ?thesis
    by (simp add: aggregate_eq return_object_def z)
qed

section \<open>The aggregation node: a label that names an inherited member\<close>

text \<open>
  C6.  The claim fails for a label such as \<^verbatim>\<open>constructor\<close>: it is not in the
  table, but \<^verbatim>\<open>foodDatabase[foodName]\<close> finds the member inherited from
  \<^verbatim>\<open>Object.prototype\<close>, the default profile is not substituted, and the item's
  nutrients and the totals are \<^verbatim>\<open>NaN\<close>.  The node still returns.
\<close>

theorem inherited_member_not_defaulted:
  "foodDatabase ''constructor'' = InheritedMember
   \<and> hf_nutrition ''constructor''
       \<noteq> \<lparr>calories = 200, protein = 10, carbs = 20, fat = 8, fiber = 2\<rparr>
   \<and> map calories (identifiedFoods
        (aggregate [\<lparr>label = ''pizza'', score = 8 / 10\<rparr>,
                    \<lparr>label = ''constructor'', score = 9 / 10\<rparr>] JNull)) = [600, NaN]
   \<and> totalCalories
        (aggregate [\<lparr>label = ''pizza'', score = 8 / 10\<rparr>,
                    \<lparr>label = ''constructor'', score = 9 / 10\<rparr>] JNull) = NaN
   \<and> totalProtein
        (aggregate [\<lparr>label = ''pizza'', score = 8 / 10\<rparr>,
                    \<lparr>label = ''constructor'', score = 9 / 10\<rparr>] JNull) = NaN"
  by (simp add: aggregate_eq retained_def hf_foodData_fields hf_nutrition_def lookup_pizza
      lookup_constructor js_eval)

text \<open>
  For a retained label that the lookup does not find at all, the default profile is
  used: the item (300, 15, 30, 12, 3 for the 150 g portion) stands in the item list
  between the items of the detections before it and of those after it.
\<close>

lemma missing_label_gets_default:
  "retained r \<Longrightarrow> foodDatabase (label r) = Missing \<Longrightarrow>
     identifiedFoods (aggregate (rs1 @ r # rs2) dd)
       = identifiedFoods (aggregate rs1 dd)
         @ \<lparr>calories = 300, protein = 15, carbs = 30, fat = 12, fiber = 3,
            name = replace_underscores (label r), confidence = score r, estimatedWeight = 150\<rparr>
         # identifiedFoods (aggregate rs2 dd)"
  by (simp add: aggregate_eq hf_foodData_missing)

section \<open>The basal metabolic rate: formula and worked example\<close>

text \<open>
  C1, as amended.  The rate follows the Mifflin-St Jeor equation, with 5 added for a
  man and 161 subtracted for a woman.  For 75 kg, 175 cm, 30 years, male it is
  1698.75, which lies in the range 1690 to 1710 that the documented unit test
  \<^verbatim>\<open>test_calculate_bmr_male\<close> asserts.
\<close>

theorem bmr_formula:
  "calculate_bmr weight height age Male = 10 * weight + 625 / 100 * height - 5 * of_int age + 5
   \<and> calculate_bmr weight height age Female = 10 * weight + 625 / 100 * height - 5 * of_int age - 161
   \<and> calculate_bmr 75 175 30 Male = 169875 / 100
   \<and> 1690 \<le> calculate_bmr 75 175 30 Male \<and> calculate_bmr 75 175 30 Male \<le> 1710"
  by (simp add: calculate_bmr_def)

text \<open>The value 1738.75 that the specification gives for this input is not the formula's.\<close>

theorem bmr_example_counterexample:
  "calculate_bmr 75 175 30 Male \<noteq> 173875 / 100"
  by (simp add: calculate_bmr_def)

end
